theory Spec2Isabelle
  imports
    Complex_Main
    "HOL-Library.Char_ord"
    "HOL-Library.List_Lexorder"
    "HOL-Library.Sublist"
    "HOL-Library.Multiset"
    "HOL-Library.AList"
begin

section \<open>The movie catalogue of \<open>movie_recommendation_system.py\<close>\<close>

text \<open>
  The class \<open>MovieRecommendationSystem\<close> keeps one list, \<open>self.movies\<close>. After a successful
  \<open>load_movies\<close> every entry is a dict whose \<open>'Rating'\<close> is a float and whose \<open>'Year'\<close> is an
  int; the query methods read the keys \<open>'Genre'\<close>, \<open>'Rating'\<close> and \<open>'Year'\<close> only. Such a typed
  entry is the record \<open>movie\<close>. A rating is the exact value of a finite float (a rational
  number): comparison of finite floats is comparison of their values, and \<open>0.0\<close> and \<open>-0.0\<close>
  are both the number 0, as they are for \<open>==\<close> and for truthiness. NaN and the infinities
  are outside the model.
\<close>

record movie =
  Title :: string
  Genre :: string
  Rating :: rat
  Year :: int
  Director :: string

datatype error = StatisticsError | ValueError | KeyError | TypeError

subsection \<open>Strings\<close>

text \<open>
  \<open>str.lower()\<close> on the code points below 256: the letters \<open>A\<close>..\<open>Z\<close> and the Latin-1
  capitals (192..222 without the multiplication sign 215) move up by 32, every other
  character stays. Strings are compared by code point, lexicographically, which is the
  order of \<open>Char_ord\<close> and \<open>List_Lexorder\<close>.
\<close>

definition lower_char :: "char \<Rightarrow> char" where
  "lower_char c =
     (let n = (of_char c :: nat)
      in if (65 \<le> n \<and> n \<le> 90) \<or> (192 \<le> n \<and> n \<le> 222 \<and> n \<noteq> 215)
         then char_of (n + 32) else c)"

definition lower :: "string \<Rightarrow> string" where
  "lower s = map lower_char s"

subsection \<open>Built-ins: slicing, sorting, \<open>max\<close> and \<open>min\<close> with a key\<close>

text \<open>\<open>xs[:n]\<close>: a negative bound counts from the end of the list.\<close>

definition slice_to :: "int \<Rightarrow> 'a list \<Rightarrow> 'a list" where
  "slice_to n xs =
     (if 0 \<le> n then take (nat n) xs else take (length xs - nat (- n)) xs)"

text \<open>
  \<open>sorted(ms, key=lambda x: x['Rating'], reverse=True)\<close>. Python's sort is stable, also
  with \<open>reverse=True\<close>: entries with equal keys keep their order. That is the stable
  insertion sort of the library on the negated key.
\<close>

definition sorted_by_rating_desc :: "movie list \<Rightarrow> movie list" where
  "sorted_by_rating_desc ms = sort_key (\<lambda>x. - Rating x) ms"

text \<open>
  \<open>max(xs, key=f)\<close> keeps the entry it holds unless the next one is strictly greater,
  \<open>min(xs, key=f)\<close> unless the next one is strictly smaller; both raise \<open>ValueError\<close> on
  an empty list.
\<close>

fun max_by :: "('a \<Rightarrow> 'k::linorder) \<Rightarrow> 'a list \<Rightarrow> error + 'a" where
  "max_by f [] = Inl ValueError"
| "max_by f (x # xs) = Inr (foldl (\<lambda>best y. if f best < f y then y else best) x xs)"

fun min_by :: "('a \<Rightarrow> 'k::linorder) \<Rightarrow> 'a list \<Rightarrow> error + 'a" where
  "min_by f [] = Inl ValueError"
| "min_by f (x # xs) = Inr (foldl (\<lambda>best y. if f y < f best then y else best) x xs)"

subsection \<open>The query methods\<close>

text \<open>\<open>sorted(list(set(...)))\<close>: the distinct genres, in ascending order.\<close>

definition get_unique_genres :: "movie list \<Rightarrow> string list" where
  "get_unique_genres ms = sorted_list_of_set (set (map Genre ms))"

definition filter_by_genre :: "string \<Rightarrow> movie list \<Rightarrow> movie list" where
  "filter_by_genre genre ms = filter (\<lambda>m. lower (Genre m) = lower genre) ms"

definition filter_by_year_range :: "int \<Rightarrow> int \<Rightarrow> movie list \<Rightarrow> movie list" where
  "filter_by_year_range start_year end_year ms =
     filter (\<lambda>m. start_year \<le> Year m \<and> Year m \<le> end_year) ms"

definition filter_by_min_rating :: "rat \<Rightarrow> movie list \<Rightarrow> movie list" where
  "filter_by_min_rating min_rating ms = filter (\<lambda>m. min_rating \<le> Rating m) ms"

text \<open>
  \<open>genre: str = None\<close>; \<open>not genre\<close> holds of \<open>None\<close> and of the empty string.
\<close>

definition movies_to_sort :: "string option \<Rightarrow> movie list \<Rightarrow> movie list" where
  "movies_to_sort genre ms =
     (case genre of
        None \<Rightarrow> ms
      | Some g \<Rightarrow> if g = [] then ms else filter_by_genre g ms)"

definition get_top_movies :: "int \<Rightarrow> string option \<Rightarrow> movie list \<Rightarrow> movie list" where
  "get_top_movies n genre ms = slice_to n (sorted_by_rating_desc (movies_to_sort genre ms))"

text \<open>
  The preferences are a dict in which each of the four keys may be missing. A present
  value is used only when it is truthy: a non-empty string, a number other than 0.
\<close>

record preferences =
  pref_genre :: "string option"
  pref_min_rating :: "rat option"
  pref_year_from :: "int option"
  pref_year_to :: "int option"

definition recommend_movies :: "preferences \<Rightarrow> movie list \<Rightarrow> movie list" where
  "recommend_movies p ms =
     (let filtered0 = ms;
          filtered1 = (case pref_genre p of
                         Some g \<Rightarrow> if g \<noteq> [] then filter (\<lambda>m. lower (Genre m) = lower g) filtered0
                                   else filtered0
                       | None \<Rightarrow> filtered0);
          filtered2 = (case pref_min_rating p of
                         Some r \<Rightarrow> if r \<noteq> 0 then filter (\<lambda>m. r \<le> Rating m) filtered1
                                   else filtered1
                       | None \<Rightarrow> filtered1);
          filtered3 = (case pref_year_from p of
                         Some y \<Rightarrow> if y \<noteq> 0 then filter (\<lambda>m. y \<le> Year m) filtered2
                                   else filtered2
                       | None \<Rightarrow> filtered2);
          filtered4 = (case pref_year_to p of
                         Some y \<Rightarrow> if y \<noteq> 0 then filter (\<lambda>m. Year m \<le> y) filtered3
                                   else filtered3
                       | None \<Rightarrow> filtered3)
      in slice_to 5 (sorted_by_rating_desc filtered4))"

subsection \<open>Statistics\<close>

text \<open>
  \<open>statistics.mean\<close> raises \<open>StatisticsError\<close> on an empty list; otherwise it adds the values
  as exact fractions, divides by their number and converts the quotient to a float. That
  conversion and \<open>round(x, 2)\<close> are operations of the floating-point runtime, not of this
  program: they are the two parameters \<open>to_float\<close> and \<open>py_round\<close> of the model. What
  they compute matters for the value of the averages only.
\<close>

record float_ops =
  to_float :: "rat \<Rightarrow> rat"
  py_round :: "rat \<Rightarrow> int \<Rightarrow> rat"

definition mean :: "float_ops \<Rightarrow> rat list \<Rightarrow> error + rat" where
  "mean fo xs =
     (if xs = [] then Inl StatisticsError
      else Inr (to_float fo (sum_list xs / of_nat (length xs))))"

text \<open>
  Modelled from the spec: the two float operations are not code of this repository
  but of the Python runtime, and the spec asks for the mean rounded to 2 decimal
  places by round-half-to-even or round-half-away-from-zero, applied consistently.
  Python has the first: a float is an IEEE binary64 number, every conversion to a
  float takes the nearest one with ties to the even significand, and \<open>round(x, n)\<close> takes
  the decimal with \<open>n\<close> places nearest to the exact value of \<open>x\<close>, ties to the even last
  digit, and then the float nearest to that decimal. Overflow to an infinity is outside
  the model; a mean of floats and a rounded float never overflow.
\<close>









record genre_stat =
  genre_count :: nat
  genre_avg_rating :: rat

record stats =
  total_movies :: nat
  average_rating :: rat
  highest_rated :: movie
  lowest_rated :: movie
  genre_statistics :: "(string \<times> genre_stat) list"
  oldest_movie :: movie
  newest_movie :: movie

text \<open>
  The loop over \<open>self.get_unique_genres()\<close>; \<open>genre_stats\<close> is a dict, here an association
  list in insertion order.
\<close>

fun genre_loop ::
  "float_ops \<Rightarrow> movie list \<Rightarrow> string list \<Rightarrow> (string \<times> genre_stat) list
     \<Rightarrow> error + (string \<times> genre_stat) list" where
  "genre_loop fo ms [] genre_stats = Inr genre_stats"
| "genre_loop fo ms (genre # rest) genre_stats =
     (let genre_movies = filter_by_genre genre ms
      in if genre_movies \<noteq> [] then
           (case mean fo (map Rating genre_movies) of
              Inl e \<Rightarrow> Inl e
            | Inr a \<Rightarrow>
                genre_loop fo ms rest
                  (AList.update genre
                     \<lparr>genre_count = length genre_movies, genre_avg_rating = py_round fo a 2\<rparr>
                     genre_stats))
         else genre_loop fo ms rest genre_stats)"

definition get_statistics :: "float_ops \<Rightarrow> movie list \<Rightarrow> error + stats" where
  "get_statistics fo ms =
     (let ratings = map Rating ms
      in case mean fo ratings of
           Inl e \<Rightarrow> Inl e
         | Inr avg \<Rightarrow>
        (case max_by Rating ms of
           Inl e \<Rightarrow> Inl e
         | Inr hi \<Rightarrow>
        (case min_by Rating ms of
           Inl e \<Rightarrow> Inl e
         | Inr lo \<Rightarrow>
        (case genre_loop fo ms (get_unique_genres ms) [] of
           Inl e \<Rightarrow> Inl e
         | Inr gs \<Rightarrow>
        (case min_by Year ms of
           Inl e \<Rightarrow> Inl e
         | Inr old \<Rightarrow>
        (case max_by Year ms of
           Inl e \<Rightarrow> Inl e
         | Inr new \<Rightarrow>
             Inr \<lparr>total_movies = length ms,
                  average_rating = py_round fo avg 2,
                  highest_rated = hi,
                  lowest_rated = lo,
                  genre_statistics = gs,
                  oldest_movie = old,
                  newest_movie = new\<rparr>))))))"

subsection \<open>Loading the catalogue\<close>

text \<open>
  While \<open>load_movies\<close> runs, an entry of \<open>self.movies\<close> is a dict from column names to
  values whose types change in place: the reader delivers strings (and \<open>None\<close> for a
  column that a short line leaves out), the loop replaces \<open>'Rating'\<close> by a float and
  \<open>'Year'\<close> by an int. A dict is an association list in insertion order; assignment to
  a key is \<open>AList.update\<close>.
\<close>

datatype pyval = VStr string | VFloat rat | VInt int | VNone

type_synonym row = "(string \<times> pyval) list"

text \<open>
  What \<open>open(self.csv_file, 'r')\<close> followed by reading every row of the \<open>DictReader\<close> does:
  \<open>FileNotFoundError\<close>, any other exception, or the rows of the file.
\<close>

datatype read_outcome = FileNotFound | ReadError | Rows "row list"

text \<open>The lines printed by \<open>load_movies\<close> and \<open>create_sample_csv\<close>.\<close>

datatype message =
    Loaded nat
  | NotFoundCreating
  | SampleCreated
  | CreateError
  | LoadError

text \<open>
  The program's surroundings are parameters of the model: \<open>float\<close> and \<open>int\<close> on a string
  (\<open>None\<close> is \<open>ValueError\<close>), and the file system with a state of type \<open>'w\<close>: what reading
  the file yields, and whether writing a table of rows to the file succeeds. Both file
  operations return the state they leave behind.
\<close>

record 'w runtime =
  float_of_str :: "string \<Rightarrow> rat option"
  int_of_str :: "string \<Rightarrow> int option"
  open_read :: "'w \<Rightarrow> read_outcome \<times> 'w"
  write_rows :: "string list list \<Rightarrow> 'w \<Rightarrow> bool \<times> 'w"

text \<open>
  \<open>float(v)\<close> and \<open>int(v)\<close>. The rows that the reader delivers hold strings and \<open>None\<close>
  only, so \<open>load_movies\<close> never reaches the cases of a float or an int argument; they
  make the functions total (\<open>int\<close> of a float truncates towards 0). A string that
  \<open>float\<close> turns into NaN or an infinity is outside the model, as these values are.
\<close>

definition py_float :: "'w runtime \<Rightarrow> pyval \<Rightarrow> error + rat" where
  "py_float rt v =
     (case v of
        VStr s \<Rightarrow> (case float_of_str rt s of None \<Rightarrow> Inl ValueError | Some r \<Rightarrow> Inr r)
      | VFloat r \<Rightarrow> Inr r
      | VInt i \<Rightarrow> Inr (of_int i)
      | VNone \<Rightarrow> Inl TypeError)"

definition py_int :: "'w runtime \<Rightarrow> pyval \<Rightarrow> error + int" where
  "py_int rt v =
     (case v of
        VStr s \<Rightarrow> (case int_of_str rt s of None \<Rightarrow> Inl ValueError | Some i \<Rightarrow> Inr i)
      | VFloat r \<Rightarrow> Inr (if 0 \<le> r then \<lfloor>r\<rfloor> else \<lceil>r\<rceil>)
      | VInt i \<Rightarrow> Inr i
      | VNone \<Rightarrow> Inl TypeError)"

text \<open>
  One pass of the body of \<open>for movie in self.movies\<close>: the exception it raises, if any,
  and the dict as the pass leaves it. A failure at \<open>'Year'\<close> comes after \<open>'Rating'\<close> has
  been replaced.
\<close>

definition coerce_movie :: "'w runtime \<Rightarrow> row \<Rightarrow> error option \<times> row" where
  "coerce_movie rt movie =
     (case map_of movie ''Rating'' of
        None \<Rightarrow> (Some KeyError, movie)
      | Some v \<Rightarrow>
     (case py_float rt v of
        Inl e \<Rightarrow> (Some e, movie)
      | Inr r \<Rightarrow>
     (let movie1 = AList.update ''Rating'' (VFloat r) movie
      in case map_of movie1 ''Year'' of
           None \<Rightarrow> (Some KeyError, movie1)
         | Some v \<Rightarrow>
        (case py_int rt v of
           Inl e \<Rightarrow> (Some e, movie1)
         | Inr y \<Rightarrow> (None, AList.update ''Year'' (VInt y) movie1)))))"

text \<open>
  The whole loop over the list that \<open>self.movies\<close> already refers to: it stops at the
  first exception, and the dicts it has not reached stay as they were read.
\<close>

fun coerce_all :: "'w runtime \<Rightarrow> row list \<Rightarrow> error option \<times> row list" where
  "coerce_all rt [] = (None, [])"
| "coerce_all rt (movie # rest) =
     (case coerce_movie rt movie of
        (Some e, movie') \<Rightarrow> (Some e, movie' # rest)
      | (None, movie') \<Rightarrow>
          (case coerce_all rt rest of (r, rest') \<Rightarrow> (r, movie' # rest')))"

definition sample_movies :: "string list list" where
  "sample_movies = [
      [''Title'', ''Genre'', ''Rating'', ''Year'', ''Director''],
      [''The Shawshank Redemption'', ''Drama'', ''9.3'', ''1994'', ''Frank Darabont''],
      [''The Godfather'', ''Crime'', ''9.2'', ''1972'', ''Francis Ford Coppola''],
      [''The Dark Knight'', ''Action'', ''9.0'', ''2008'', ''Christopher Nolan''],
      [''Pulp Fiction'', ''Crime'', ''8.9'', ''1994'', ''Quentin Tarantino''],
      [''Forrest Gump'', ''Drama'', ''8.8'', ''1994'', ''Robert Zemeckis''],
      [''Inception'', ''Sci-Fi'', ''8.8'', ''2010'', ''Christopher Nolan''],
      [''The Matrix'', ''Sci-Fi'', ''8.7'', ''1999'', ''Wachowski Brothers''],
      [''Goodfellas'', ''Crime'', ''8.7'', ''1990'', ''Martin Scorsese''],
      [''The Silence of the Lambs'', ''Thriller'', ''8.6'', ''1991'', ''Jonathan Demme''],
      [''Saving Private Ryan'', ''War'', ''8.6'', ''1998'', ''Steven Spielberg''],
      [''Spirited Away'', ''Animation'', ''8.6'', ''2001'', ''Hayao Miyazaki''],
      [''The Green Mile'', ''Drama'', ''8.6'', ''1999'', ''Frank Darabont''],
      [''Interstellar'', ''Sci-Fi'', ''8.6'', ''2014'', ''Christopher Nolan''],
      [''Parasite'', ''Thriller'', ''8.5'', ''2019'', ''Bong Joon-ho''],
      [''The Lion King'', ''Animation'', ''8.5'', ''1994'', ''Roger Allers''],
      [''Back to the Future'', ''Sci-Fi'', ''8.5'', ''1985'', ''Robert Zemeckis''],
      [''The Prestige'', ''Mystery'', ''8.5'', ''2006'', ''Christopher Nolan''],
      [''Whiplash'', ''Drama'', ''8.5'', ''2014'', ''Damien Chazelle''],
      [''The Usual Suspects'', ''Crime'', ''8.5'', ''1995'', ''Bryan Singer''],
      [''Toy Story'', ''Animation'', ''8.3'', ''1995'', ''John Lasseter''],
      [''Joker'', ''Crime'', ''8.4'', ''2019'', ''Todd Phillips''],
      [''Avengers: Endgame'', ''Action'', ''8.4'', ''2019'', ''Russo Brothers''],
      [''Spider-Man: Into the Spider-Verse'', ''Animation'', ''8.4'', ''2018'', ''Peter Ramsey''],
      [''The Departed'', ''Crime'', ''8.5'', ''2006'', ''Martin Scorsese''],
      [''Gladiator'', ''Action'', ''8.5'', ''2000'', ''Ridley Scott'']
     ]"

text \<open>The object: \<open>self.movies\<close>, and next to it what has been printed so far.\<close>

record system =
  movies :: "row list"
  printed :: "message list"

text \<open>
  The interpreter bounds the depth of nested calls (\<open>sys.getrecursionlimit()\<close>, 1000
  unless it is changed). In the two methods below \<open>depth\<close> is the number of levels that
  the call may still use for the calls it makes itself. A call with none left gets
  \<open>RecursionError\<close> inside its \<open>try\<close> block, and \<open>RecursionError\<close> is an \<open>Exception\<close>: the
  \<open>except Exception\<close> clause of the method prints the error and the method returns
  \<open>False\<close>.
\<close>

definition recursion_limit :: nat where
  "recursion_limit = 1000"

definition create_sample_csv ::
  "'w runtime \<Rightarrow> nat \<Rightarrow> system \<Rightarrow> 'w \<Rightarrow> bool \<times> system \<times> 'w" where
  "create_sample_csv rt depth s w =
     (if depth = 0 then (False, s\<lparr>printed := printed s @ [CreateError]\<rparr>, w)
      else case write_rows rt sample_movies w of
             (True, w') \<Rightarrow> (True, s\<lparr>printed := printed s @ [SampleCreated]\<rparr>, w')
           | (False, w') \<Rightarrow> (False, s\<lparr>printed := printed s @ [CreateError]\<rparr>, w'))"

text \<open>
  \<open>load_movies\<close> calls itself after a successful \<open>create_sample_csv\<close>; each of the two
  calls it makes has one level less than itself.
\<close>

fun load_movies :: "'w runtime \<Rightarrow> nat \<Rightarrow> system \<Rightarrow> 'w \<Rightarrow> bool \<times> system \<times> 'w" where
  "load_movies rt 0 s w = (False, s\<lparr>printed := printed s @ [LoadError]\<rparr>, w)"
| "load_movies rt (Suc depth) s w =
     (case open_read rt w of
        (Rows rs, w1) \<Rightarrow>
          (case coerce_all rt rs of
             (None, ms) \<Rightarrow>
               (True, s\<lparr>movies := ms, printed := printed s @ [Loaded (length ms)]\<rparr>, w1)
           | (Some e, ms) \<Rightarrow>
               (False, s\<lparr>movies := ms, printed := printed s @ [LoadError]\<rparr>, w1))
      | (ReadError, w1) \<Rightarrow> (False, s\<lparr>printed := printed s @ [LoadError]\<rparr>, w1)
      | (FileNotFound, w1) \<Rightarrow>
          (case create_sample_csv rt depth (s\<lparr>printed := printed s @ [NotFoundCreating]\<rparr>) w1 of
             (created, s2, w2) \<Rightarrow>
               if created then load_movies rt depth s2 w2 else (False, s2, w2)))"

text \<open>\<open>__init__\<close>: an empty catalogue, nothing printed.\<close>

definition init :: system where
  "init = \<lparr>movies = [], printed = []\<rparr>"

subsection \<open>Notions used in the statements\<close>

text \<open>A pass of the coercion loop over one row that raises nothing.\<close>

definition coerced :: "'w runtime \<Rightarrow> row \<Rightarrow> bool" where
  "coerced rt movie \<longleftrightarrow> fst (coerce_movie rt movie) = None"

text \<open>
  The count and the rounded average of the ratings of all entries whose genre is \<open>g\<close>
  up to letter case.
\<close>

definition genre_entry :: "float_ops \<Rightarrow> movie list \<Rightarrow> string \<Rightarrow> genre_stat" where
  "genre_entry fo ms g =
     (let gm = filter (\<lambda>m. lower (Genre m) = lower g) ms
      in \<lparr>genre_count = length gm,
          genre_avg_rating =
            py_round fo (to_float fo (sum_list (map Rating gm) / of_nat (length gm))) 2\<rparr>)"

subsection \<open>Example data\<close>

text \<open>
  A catalogue of four entries with ties in rating and in year, and with the genre
  \<open>Drama\<close> in two spellings. All its means are 8.75, a float with two decimals, which
  the conversion to float and \<open>round(x, 2)\<close> leave as it is: on this catalogue both
  operations are the identity.
\<close>

definition dark_knight :: movie where
  "dark_knight = \<lparr>Title = ''The Dark Knight'', Genre = ''Action'', Rating = 9, Year = 2008,
                   Director = ''Christopher Nolan''\<rparr>"

definition whiplash :: movie where
  "whiplash = \<lparr>Title = ''Whiplash'', Genre = ''Drama'', Rating = 17 / 2, Year = 2014,
                Director = ''Damien Chazelle''\<rparr>"

definition gladiator :: movie where
  "gladiator = \<lparr>Title = ''Gladiator'', Genre = ''Action'', Rating = 17 / 2, Year = 2000,
                 Director = ''Ridley Scott''\<rparr>"

definition untitled :: movie where
  "untitled = \<lparr>Title = ''Untitled'', Genre = ''drama'', Rating = 9, Year = 2000,
                Director = ''Nobody''\<rparr>"




definition example_catalogue :: "movie list" where
  "example_catalogue = [dark_knight, whiplash, gladiator, untitled]"

definition flop :: movie where
  "flop = \<lparr>Title = ''Flop'', Genre = ''Drama'', Rating = - 1, Year = 1994,
            Director = ''Nobody''\<rparr>"

definition example_float_ops :: float_ops where
  "example_float_ops = \<lparr>to_float = (\<lambda>x. x), py_round = (\<lambda>x n. x)\<rparr>"

definition example_preferences :: preferences where
  "example_preferences =
     \<lparr>pref_genre = Some ''DRAMA'', pref_min_rating = Some (17 / 2),
      pref_year_from = Some 2000, pref_year_to = Some 2010\<rparr>"

text \<open>
  The rows a \<open>DictReader\<close> makes of a table whose first line holds the column names; a
  short line is filled up with \<open>None\<close>.
\<close>

definition dict_rows :: "string list list \<Rightarrow> row list" where
  "dict_rows table =
     (case table of
        [] \<Rightarrow> []
      | fieldnames # lines \<Rightarrow>
          map (\<lambda>line. zip fieldnames
                 (map VStr line @ replicate (length fieldnames - length line) VNone)) lines)"

text \<open>
  \<open>float\<close> on the rating strings of the sample table: the exact values of the floats
  nearest to the decimals. Every other string of the examples (\<open>N/A\<close>) is no number.
\<close>

definition example_float :: "string \<Rightarrow> rat option" where
  "example_float =
     map_of
       [(''9.3'', 2617717283409101 / 281474976710656),
        (''9.2'', 2589569785738035 / 281474976710656),
        (''9.0'', 9),
        (''8.9'', 5010254585449677 / 562949953421312),
        (''8.8'', 2476979795053773 / 281474976710656),
        (''8.7'', 2448832297382707 / 281474976710656),
        (''8.6'', 4841369599423283 / 562949953421312),
        (''8.5'', 17 / 2),
        (''8.4'', 4728779608739021 / 562949953421312),
        (''8.3'', 2336242306698445 / 281474976710656)]"

text \<open>\<open>int\<close> on a non-empty string of decimal digits.\<close>

fun digits_value :: "nat \<Rightarrow> string \<Rightarrow> nat option" where
  "digits_value acc [] = Some acc"
| "digits_value acc (c # cs) =
     (if CHR ''0'' \<le> c \<and> c \<le> CHR ''9''
      then digits_value (10 * acc + (of_char c - 48)) cs else None)"

definition example_int :: "string \<Rightarrow> int option" where
  "example_int s = (if s = [] then None else map_option int (digits_value 0 s))"

text \<open>
  A file system with one file: its table (\<open>None\<close> when the file does not exist), whether
  the place is read-only, and how many more times another process removes the file
  right after it has been written.
\<close>

record disk =
  contents :: "string list list option"
  read_only :: bool
  removals :: nat

definition example_runtime :: "disk runtime" where
  "example_runtime =
     \<lparr>float_of_str = example_float,
      int_of_str = example_int,
      open_read = (\<lambda>d.
         case contents d of
           None \<Rightarrow> (FileNotFound, d)
         | Some table \<Rightarrow> (Rows (dict_rows table), d)),
      write_rows = (\<lambda>table d.
         if read_only d then (False, d)
         else if removals d = 0 then (True, d\<lparr>contents := Some table\<rparr>)
         else (True, d\<lparr>contents := None, removals := removals d - 1\<rparr>))\<rparr>"

definition no_file :: disk where
  "no_file = \<lparr>contents = None, read_only = False, removals = 0\<rparr>"

definition bad_table :: "string list list" where
  "bad_table =
     [[''Title'', ''Genre'', ''Rating'', ''Year'', ''Director''],
      [''The Dark Knight'', ''Action'', ''9.0'', ''2008'', ''Christopher Nolan''],
      [''Untitled'', ''Drama'', ''N/A'', ''1994'', ''Nobody''],
      [''Whiplash'', ''Drama'', ''8.5'', ''2014'', ''Damien Chazelle'']]"

definition bad_disk :: disk where
  "bad_disk = \<lparr>contents = Some bad_table, read_only = False, removals = 0\<rparr>"

definition written_disk :: disk where
  "written_disk = \<lparr>contents = Some sample_movies, read_only = False, removals = 0\<rparr>"

definition read_only_disk :: disk where
  "read_only_disk = \<lparr>contents = None, read_only = True, removals = 0\<rparr>"

definition vanishing_disk :: disk where
  "vanishing_disk = \<lparr>contents = None, read_only = False, removals = 1\<rparr>"

definition restless_disk :: disk where
  "restless_disk = \<lparr>contents = None, read_only = False, removals = 5\<rparr>"

text \<open>The statistics of the example catalogue.\<close>

definition example_stats :: stats where
  "example_stats =
     \<lparr>total_movies = 4,
      average_rating = 35 / 4,
      highest_rated = dark_knight,
      lowest_rated = whiplash,
      genre_statistics =
        [(''Action'', \<lparr>genre_count = 2, genre_avg_rating = 35 / 4\<rparr>),
         (''Drama'', \<lparr>genre_count = 2, genre_avg_rating = 35 / 4\<rparr>),
         (''drama'', \<lparr>genre_count = 2, genre_avg_rating = 35 / 4\<rparr>)],
      oldest_movie = gladiator,
      newest_movie = whiplash\<rparr>"

section \<open>Auxiliary lemmas\<close>

subsection \<open>Lists\<close>

lemma find_append_first:
  "find P (xs @ ys) = (case find P xs of None \<Rightarrow> find P ys | Some x \<Rightarrow> Some x)"
  by (induction xs) auto

lemma count_list_distinct:
  "distinct xs \<Longrightarrow> count_list xs g = (if g \<in> set xs then 1 else 0)"
  by (induction xs) auto

lemma first_failure:
  assumes "\<exists>m\<in>set rs. \<not> P m"
  shows "\<exists>pre m post. rs = pre @ m # post \<and> (\<forall>x\<in>set pre. P x) \<and> \<not> P m"
proof -
  obtain ys x zs where "rs = ys @ x # zs" "\<not> P x" "\<forall>y\<in>set ys. \<not> \<not> P y"
    using split_list_first_prop [OF assms] by blast
  then show ?thesis by (intro exI [of _ ys] exI [of _ x] exI [of _ zs]) simp
qed

lemma update_fresh: "k \<notin> fst ` set al \<Longrightarrow> AList.update k v al = al @ [(k, v)]"
  by (induction al) auto

lemma length_filter_sum: "length (filter Q ys) = (\<Sum>y\<leftarrow>ys. if Q y then 1 else 0)"
  by (induction ys) auto

text \<open>Counting the pairs that satisfy \<open>P\<close> row by row or column by column.\<close>

lemma count_swap:
  "(\<Sum>x\<leftarrow>xs. length (filter (P x) ys)) = (\<Sum>y\<leftarrow>ys. length (filter (\<lambda>x. P x y) xs))"
proof (induction xs)
  case Nil
  then show ?case by simp
next
  case (Cons x xs)
  have "(\<Sum>y\<leftarrow>ys. length (filter (\<lambda>x. P x y) (x # xs)))
      = (\<Sum>y\<leftarrow>ys. (if P x y then 1 else 0) + length (filter (\<lambda>x. P x y) xs))"
    by (intro arg_cong [where f = sum_list] map_cong) auto
  also have "\<dots> = (\<Sum>y\<leftarrow>ys. if P x y then 1 else 0)
                  + (\<Sum>y\<leftarrow>ys. length (filter (\<lambda>x. P x y) xs))"
    by (simp add: sum_list_addf)
  finally show ?case using Cons by (simp add: length_filter_sum)
qed

lemma sum_list_ge_length:
  fixes f :: "'a \<Rightarrow> nat"
  assumes "\<forall>x\<in>set xs. 1 \<le> f x"
  shows "length xs \<le> sum_list (map f xs)"
  using assms by (induction xs) auto

lemma sum_list_gt_length:
  fixes f :: "'a \<Rightarrow> nat"
  assumes "\<forall>x\<in>set xs. 1 \<le> f x" "x \<in> set xs" "2 \<le> f x"
  shows "length xs < sum_list (map f xs)"
proof -
  obtain ys zs where xs: "xs = ys @ x # zs" using assms(2) by (auto dest: split_list)
  have "length ys \<le> sum_list (map f ys)" "length zs \<le> sum_list (map f zs)"
    using assms(1) unfolding xs by (auto intro: sum_list_ge_length)
  then show ?thesis using assms(3) unfolding xs by simp
qed

subsection \<open>\<open>max\<close> and \<open>min\<close> return the first extremal entry\<close>

lemma foldl_max_first:
  fixes f :: "'a \<Rightarrow> 'k::linorder"
  defines "step \<equiv> (\<lambda>best y. if f best < f y then y else best)"
  shows "(\<forall>y\<in>set (x # xs). f y \<le> f (foldl step x xs))
     \<and> find (\<lambda>m. f m = f (foldl step x xs)) (x # xs) = Some (foldl step x xs)"
proof (induction xs rule: rev_induct)
  case Nil
  then show ?case by simp
next
  case (snoc y xs)
  let ?r = "foldl step x xs"
  have bound: "\<forall>z\<in>set (x # xs). f z \<le> f ?r"
    and first: "find (\<lambda>m. f m = f ?r) (x # xs) = Some ?r"
    using snoc by blast+
  show ?case
  proof (cases "f ?r < f y")
    case True
    then have r: "foldl step x (xs @ [y]) = y" by (simp add: step_def)
    have "\<forall>z\<in>set (x # xs). f z \<noteq> f y" using bound True by auto
    then have none: "find (\<lambda>m. f m = f y) (x # xs) = None" by (simp add: find_None_iff)
    have "find (\<lambda>m. f m = f y) ((x # xs) @ [y]) = Some y"
      unfolding find_append_first none by simp
    moreover have "\<forall>z\<in>set (x # xs @ [y]). f z \<le> f y" using bound True by auto
    ultimately show ?thesis unfolding r by simp
  next
    case False
    then have r: "foldl step x (xs @ [y]) = ?r" by (simp add: step_def)
    have "find (\<lambda>m. f m = f ?r) ((x # xs) @ [y]) = Some ?r"
      unfolding find_append_first first by simp
    moreover have "\<forall>z\<in>set (x # xs @ [y]). f z \<le> f ?r" using bound False by auto
    ultimately show ?thesis unfolding r by simp
  qed
qed

lemma foldl_min_first:
  fixes f :: "'a \<Rightarrow> 'k::linorder"
  defines "step \<equiv> (\<lambda>best y. if f y < f best then y else best)"
  shows "(\<forall>y\<in>set (x # xs). f (foldl step x xs) \<le> f y)
     \<and> find (\<lambda>m. f m = f (foldl step x xs)) (x # xs) = Some (foldl step x xs)"
proof (induction xs rule: rev_induct)
  case Nil
  then show ?case by simp
next
  case (snoc y xs)
  let ?r = "foldl step x xs"
  have bound: "\<forall>z\<in>set (x # xs). f ?r \<le> f z"
    and first: "find (\<lambda>m. f m = f ?r) (x # xs) = Some ?r"
    using snoc by blast+
  show ?case
  proof (cases "f y < f ?r")
    case True
    then have r: "foldl step x (xs @ [y]) = y" by (simp add: step_def)
    have "\<forall>z\<in>set (x # xs). f z \<noteq> f y" using bound True by auto
    then have none: "find (\<lambda>m. f m = f y) (x # xs) = None" by (simp add: find_None_iff)
    have "find (\<lambda>m. f m = f y) ((x # xs) @ [y]) = Some y"
      unfolding find_append_first none by simp
    moreover have "\<forall>z\<in>set (x # xs @ [y]). f y \<le> f z" using bound True by auto
    ultimately show ?thesis unfolding r by simp
  next
    case False
    then have r: "foldl step x (xs @ [y]) = ?r" by (simp add: step_def)
    have "find (\<lambda>m. f m = f ?r) ((x # xs) @ [y]) = Some ?r"
      unfolding find_append_first first by simp
    moreover have "\<forall>z\<in>set (x # xs @ [y]). f ?r \<le> f z" using bound False by auto
    ultimately show ?thesis unfolding r by simp
  qed
qed

lemma max_by_first:
  fixes f :: "'a \<Rightarrow> 'k::linorder"
  assumes "max_by f xs = Inr r"
  shows "find (\<lambda>m. f m = Max (f ` set xs)) xs = Some r"
proof (cases xs)
  case Nil
  with assms show ?thesis by simp
next
  case (Cons x ys)
  with assms have r: "r = foldl (\<lambda>best y. if f best < f y then y else best) x ys" by simp
  from foldl_max_first [where f=f and x=x and xs=ys]
  have bound: "\<forall>y\<in>set xs. f y \<le> f r" and first: "find (\<lambda>m. f m = f r) xs = Some r"
    unfolding r Cons by blast+
  from first have "r \<in> set xs" by (auto simp: find_Some_iff)
  then have "Max (f ` set xs) = f r" using bound by (intro Max_eqI) auto
  then show ?thesis using first by simp
qed

lemma min_by_first:
  fixes f :: "'a \<Rightarrow> 'k::linorder"
  assumes "min_by f xs = Inr r"
  shows "find (\<lambda>m. f m = Min (f ` set xs)) xs = Some r"
proof (cases xs)
  case Nil
  with assms show ?thesis by simp
next
  case (Cons x ys)
  with assms have r: "r = foldl (\<lambda>best y. if f y < f best then y else best) x ys" by simp
  from foldl_min_first [where f=f and x=x and xs=ys]
  have bound: "\<forall>y\<in>set xs. f r \<le> f y" and first: "find (\<lambda>m. f m = f r) xs = Some r"
    unfolding r Cons by blast+
  from first have "r \<in> set xs" by (auto simp: find_Some_iff)
  then have "Min (f ` set xs) = f r" using bound by (intro Min_eqI) auto
  then show ?thesis using first by simp
qed

subsection \<open>Sorting by rating\<close>

lemma sorted_by_rating_desc_sorted:
  "sorted_wrt (\<lambda>a b. Rating b \<le> Rating a) (sorted_by_rating_desc ms)"
proof -
  have "sorted (map (\<lambda>x. - Rating x) (sorted_by_rating_desc ms))"
    unfolding sorted_by_rating_desc_def by (rule sorted_sort_key)
  then show ?thesis by (simp add: sorted_map)
qed

lemma sorted_by_rating_desc_stable:
  "filter (\<lambda>m. Rating m = k) (sorted_by_rating_desc ms) = filter (\<lambda>m. Rating m = k) ms"
  using sort_key_stable [of "\<lambda>x. - Rating x" "- k" ms]
  by (simp add: sorted_by_rating_desc_def)

lemma mset_sorted_by_rating_desc: "mset (sorted_by_rating_desc ms) = mset ms"
  by (simp add: sorted_by_rating_desc_def)

lemma length_sorted_by_rating_desc: "length (sorted_by_rating_desc ms) = length ms"
  by (simp add: sorted_by_rating_desc_def)

lemma slice_to_nonneg: "0 \<le> n \<Longrightarrow> slice_to n xs = take (nat n) xs"
  by (simp add: slice_to_def)

lemma opt_filter:
  "(case opt of Some v \<Rightarrow> if T v then filter (Q v) xs else xs | None \<Rightarrow> xs)
     = filter (\<lambda>m. \<forall>v. opt = Some v \<and> T v \<longrightarrow> Q v m) xs"
  by (cases opt) auto

subsection \<open>Rounding\<close>







subsection \<open>The statistics\<close>

lemma genre_loop_total: "\<exists>r. genre_loop fo ms gs acc = Inr r"
  by (induction gs arbitrary: acc) (auto simp: Let_def mean_def)

lemma get_statistics_Inr:
  assumes "get_statistics fo ms = Inr st"
  shows "max_by Rating ms = Inr (highest_rated st)"
    and "min_by Rating ms = Inr (lowest_rated st)"
    and "min_by Year ms = Inr (oldest_movie st)"
    and "max_by Year ms = Inr (newest_movie st)"
    and "genre_loop fo ms (get_unique_genres ms) [] = Inr (genre_statistics st)"
    and "total_movies st = length ms"
    and "ms \<noteq> []"
  using assms
  by (auto simp: get_statistics_def Let_def mean_def split: sum.splits if_splits)

lemma genre_loop_append:
  assumes "distinct gs" "set gs \<inter> fst ` set acc = {}"
    "\<forall>g\<in>set gs. filter_by_genre g ms \<noteq> []"
  shows "genre_loop fo ms gs acc = Inr (acc @ map (\<lambda>g. (g, genre_entry fo ms g)) gs)"
  using assms
proof (induction gs arbitrary: acc)
  case Nil
  then show ?case by simp
next
  case (Cons g gs)
  let ?e = "genre_entry fo ms g"
  have fresh: "g \<notin> fst ` set acc" using Cons.prems by auto
  have ne: "filter_by_genre g ms \<noteq> []" using Cons.prems by simp
  have step: "genre_loop fo ms (g # gs) acc = genre_loop fo ms gs (acc @ [(g, ?e)])"
    using ne
    by (simp add: Let_def mean_def genre_entry_def filter_by_genre_def update_fresh [OF fresh])
  have "genre_loop fo ms gs (acc @ [(g, ?e)])
          = Inr ((acc @ [(g, ?e)]) @ map (\<lambda>g. (g, genre_entry fo ms g)) gs)"
    using Cons.prems by (intro Cons.IH) auto
  then show ?case using step by simp
qed

lemma unique_genres_match:
  "g \<in> set (get_unique_genres ms) \<Longrightarrow> filter_by_genre g ms \<noteq> []"
  by (auto simp: get_unique_genres_def filter_by_genre_def filter_empty_conv)

lemma genre_statistics_eq:
  assumes "genre_loop fo ms (get_unique_genres ms) [] = Inr gs"
  shows "gs = map (\<lambda>g. (g, genre_entry fo ms g)) (get_unique_genres ms)"
proof -
  have "distinct (get_unique_genres ms)" by (simp add: get_unique_genres_def)
  then have "genre_loop fo ms (get_unique_genres ms) []
       = Inr ([] @ map (\<lambda>g. (g, genre_entry fo ms g)) (get_unique_genres ms))"
    by (intro genre_loop_append) (auto simp: unique_genres_match)
  with assms show ?thesis by simp
qed

lemma keys_matching_ge1:
  assumes "m \<in> set ms"
  shows "1 \<le> length (filter (\<lambda>g. lower (Genre m) = lower g) (get_unique_genres ms))"
proof -
  have "Genre m \<in> set (filter (\<lambda>g. lower (Genre m) = lower g) (get_unique_genres ms))"
    using assms by (simp add: get_unique_genres_def)
  then show ?thesis by (metis One_nat_def Suc_leI length_pos_if_in_set)
qed

lemma keys_matching_ge2:
  assumes "m \<in> set ms" "h \<in> set (get_unique_genres ms)" "h \<noteq> Genre m"
    "lower h = lower (Genre m)"
  shows "2 \<le> length (filter (\<lambda>g. lower (Genre m) = lower g) (get_unique_genres ms))"
proof -
  let ?F = "filter (\<lambda>g. lower (Genre m) = lower g) (get_unique_genres ms)"
  have d: "distinct ?F" by (simp add: get_unique_genres_def)
  have "{Genre m, h} \<subseteq> set ?F" using assms by (auto simp: get_unique_genres_def)
  then have "card {Genre m, h} \<le> card (set ?F)" by (intro card_mono) auto
  then show ?thesis using assms(3) distinct_card [OF d] by simp
qed

lemma get_statistics_total:
  assumes "ms \<noteq> []"
  shows "\<exists>st. get_statistics fo ms = Inr st"
proof -
  obtain x xs where ms: "ms = x # xs" using assms by (cases ms) auto
  obtain gs where "genre_loop fo ms (get_unique_genres ms) [] = Inr gs"
    using genre_loop_total by blast
  then show ?thesis
    by (simp add: get_statistics_def mean_def ms)
qed


subsection \<open>Loading\<close>

lemma coerce_all_fail:
  assumes "\<forall>m\<in>set pre. coerced rt m" "\<not> coerced rt m"
  shows "coerce_all rt (pre @ m # post)
       = (fst (coerce_movie rt m),
          map (\<lambda>m. snd (coerce_movie rt m)) pre @ snd (coerce_movie rt m) # post)"
  using assms
  by (induction pre) (auto simp: coerced_def split: prod.splits option.splits)

lemma load_retry:
  assumes "open_read rt w = (FileNotFound, w1)" "write_rows rt sample_movies w1 = (True, w2)"
  shows "load_movies rt (Suc (Suc depth)) s w
       = load_movies rt (Suc depth)
           (s\<lparr>printed := printed s @ [NotFoundCreating, SampleCreated]\<rparr>) w2"
  by (simp add: assms create_sample_csv_def)

lemma load_no_retry:
  assumes "open_read rt w = (FileNotFound, w1)" "write_rows rt sample_movies w1 = (False, w2)"
  shows "load_movies rt (Suc (Suc depth)) s w
       = (False, s\<lparr>printed := printed s @ [NotFoundCreating, CreateError]\<rparr>, w2)"
  by (simp add: assms create_sample_csv_def)

text \<open>A load that finds the file returns, after printing one line.\<close>

lemma load_present:
  assumes "fst (open_read rt w) \<noteq> FileNotFound"
  shows "\<exists>ok s' msg. load_movies rt (Suc depth) s w = (ok, s', snd (open_read rt w))
           \<and> printed s' = printed s @ [msg] \<and> msg \<noteq> NotFoundCreating"
proof (cases "open_read rt w")
  case (Pair out w1)
  have goal: "\<exists>ok s' msg. load_movies rt (Suc depth) s w = (ok, s', snd (open_read rt w))
           \<and> printed s' = printed s @ [msg] \<and> msg \<noteq> NotFoundCreating"
    if "load_movies rt (Suc depth) s w = (ok, s', w1)" "printed s' = printed s @ [msg]"
       "msg \<noteq> NotFoundCreating" for ok s' msg
    using that Pair by (metis snd_conv)
  show ?thesis
  proof (cases out)
    case FileNotFound
    with Pair assms show ?thesis by simp
  next
    case ReadError
    have "load_movies rt (Suc depth) s w
        = (False, s\<lparr>printed := printed s @ [LoadError]\<rparr>, w1)"
      by (simp add: Pair ReadError)
    then show ?thesis by (rule goal) (simp, simp)
  next
    case (Rows rs)
    obtain r ms where c: "coerce_all rt rs = (r, ms)" by (cases "coerce_all rt rs")
    show ?thesis
    proof (cases r)
      case None
      have "load_movies rt (Suc depth) s w
          = (True, s\<lparr>movies := ms, printed := printed s @ [Loaded (length ms)]\<rparr>, w1)"
        by (simp add: Pair Rows c None)
      then show ?thesis by (rule goal) (simp, simp)
    next
      case (Some e)
      have "load_movies rt (Suc depth) s w
          = (False, s\<lparr>movies := ms, printed := printed s @ [LoadError]\<rparr>, w1)"
        by (simp add: Pair Rows c Some)
      then show ?thesis by (rule goal) (simp, simp)
    qed
  qed
qed

text \<open>Every load that finds the file missing uses up one level of the depth.\<close>

lemma load_attempts_bounded:
  "count_list (printed (fst (snd (load_movies rt depth s w)))) NotFoundCreating
     \<le> count_list (printed s) NotFoundCreating + depth"
proof (induction depth arbitrary: s w)
  case 0
  then show ?case by simp
next
  case (Suc depth)
  obtain out w1 where r: "open_read rt w = (out, w1)" by (cases "open_read rt w")
  show ?case
  proof (cases out)
    case FileNotFound
    let ?s1 = "s\<lparr>printed := printed s @ [NotFoundCreating]\<rparr>"
    obtain created s2 w2 where c: "create_sample_csv rt depth ?s1 w1 = (created, s2, w2)"
      by (cases "create_sample_csv rt depth ?s1 w1")
    have s2: "count_list (printed s2) NotFoundCreating
            = count_list (printed s) NotFoundCreating + 1"
      using c by (auto simp: create_sample_csv_def split: if_splits prod.splits bool.splits)
    show ?thesis
    proof (cases created)
      case True
      have "load_movies rt (Suc depth) s w = load_movies rt depth s2 w2"
        by (simp add: r FileNotFound c True)
      then show ?thesis using Suc.IH [of s2 w2] s2 by simp
    next
      case False
      have "load_movies rt (Suc depth) s w = (False, s2, w2)"
        by (simp add: r FileNotFound c False)
      then show ?thesis using s2 by simp
    qed
  next
    case ReadError
    then show ?thesis by (simp add: r)
  next
    case (Rows rs)
    then show ?thesis by (simp add: r split: prod.splits option.splits)
  qed
qed

subsection \<open>The examples, evaluated\<close>

lemma lower_examples:
  "lower ''Action'' = ''action''" "lower ''Drama'' = ''drama''" "lower ''drama'' = ''drama''"
  "lower ''DRAMA'' = ''drama''"
  by code_simp+

lemma example_genres: "get_unique_genres example_catalogue = [''Action'', ''Drama'', ''drama'']"
  by code_simp

lemma example_top2:
  "get_top_movies 2 None example_catalogue = [dark_knight, untitled]"
  by (simp add: get_top_movies_def movies_to_sort_def
      slice_to_def sorted_by_rating_desc_def example_catalogue_def
      dark_knight_def whiplash_def gladiator_def untitled_def)

lemma example_statistics:
  "get_statistics example_float_ops example_catalogue = Inr example_stats"
  by code_simp

lemma bad_rows_read:
  "open_read example_runtime bad_disk = (Rows (dict_rows bad_table), bad_disk)"
  by (simp add: example_runtime_def bad_disk_def)

lemma bad_rows_fail: "\<exists>m\<in>set (dict_rows bad_table). \<not> coerced example_runtime m"
  by code_simp

lemma example_top_drama:
  "get_top_movies 5 (Some ''DRAMA'') example_catalogue = [untitled, whiplash]"
  by (simp add: get_top_movies_def movies_to_sort_def filter_by_genre_def lower_examples
      slice_to_def sorted_by_rating_desc_def example_catalogue_def
      dark_knight_def whiplash_def gladiator_def untitled_def)

lemma example_scope_drama:
  "filter (\<lambda>m. lower (Genre m) = lower ''DRAMA'') example_catalogue = [whiplash, untitled]"
  by (simp add: lower_examples example_catalogue_def
      dark_knight_def whiplash_def gladiator_def untitled_def)




text \<open>
  Where the file is removed again and again, the retries end with the depth: with
  three levels the second creation is the last one, and the load fails.
\<close>

lemma load_recursion_exhausted:
  "load_movies example_runtime 3 init restless_disk
     = (False,
        \<lparr>movies = [],
         printed = [NotFoundCreating, SampleCreated, NotFoundCreating, SampleCreated,
                    NotFoundCreating, CreateError]\<rparr>,
        \<lparr>contents = None, read_only = False, removals = 3\<rparr>)"
  by code_simp

section \<open>The claims\<close>

text \<open>
  C1, as amended. If the coercion of rating or year fails for some row of the file,
  \<open>load_movies\<close> reports failure, and the catalogue is not emptied: \<open>self.movies\<close> holds
  every row that was read, in file order, the rows before the first failing one
  coerced, the failing row as the failed pass left it, the rows after it as read.
\<close>

theorem load_coercion_failure_keeps_rows:
  assumes "open_read rt w = (Rows rs, w1)"
    and "\<exists>m\<in>set rs. \<not> coerced rt m"
  shows "\<exists>pre m post.
           rs = pre @ m # post \<and> (\<forall>x\<in>set pre. coerced rt x) \<and> \<not> coerced rt m
         \<and> load_movies rt (Suc depth) s w =
             (False,
              s\<lparr>movies := map (\<lambda>x. snd (coerce_movie rt x)) pre
                             @ snd (coerce_movie rt m) # post,
                printed := printed s @ [LoadError]\<rparr>,
              w1)"
proof -
  obtain pre m post where split:
    "rs = pre @ m # post" "\<forall>x\<in>set pre. coerced rt x" "\<not> coerced rt m"
    using first_failure [OF assms(2)] by blast
  obtain e where e: "fst (coerce_movie rt m) = Some e"
    using split(3) by (auto simp: coerced_def)
  have "load_movies rt (Suc depth) s w =
             (False,
              s\<lparr>movies := map (\<lambda>x. snd (coerce_movie rt x)) pre
                             @ snd (coerce_movie rt m) # post,
                printed := printed s @ [LoadError]\<rparr>,
              w1)"
    by (simp add: assms(1) split(1) coerce_all_fail [OF split(2,3)] e)
  then show ?thesis using split by blast
qed

text \<open>
  The theorem at a file of three rows whose second row has the rating \<open>N/A\<close>.
\<close>

theorem load_coercion_failure_keeps_rows_witness:
  "open_read example_runtime bad_disk = (Rows (dict_rows bad_table), bad_disk)
   \<and> (\<exists>m\<in>set (dict_rows bad_table). \<not> coerced example_runtime m)
   \<and> (\<exists>pre m post.
           dict_rows bad_table = pre @ m # post
         \<and> (\<forall>x\<in>set pre. coerced example_runtime x) \<and> \<not> coerced example_runtime m
         \<and> load_movies example_runtime (Suc 999) init bad_disk =
             (False,
              init\<lparr>movies := map (\<lambda>x. snd (coerce_movie example_runtime x)) pre
                             @ snd (coerce_movie example_runtime m) # post,
                printed := printed init @ [LoadError]\<rparr>,
              bad_disk))"
  using load_coercion_failure_keeps_rows [OF bad_rows_read bad_rows_fail, of 999 init]
    bad_rows_read bad_rows_fail
  by blast

text \<open>
  C1 as stated fails: on that file \<open>load_movies\<close> returns \<open>False\<close> and leaves three
  entries in the catalogue, the first with a float and an int, the other two with
  strings.
\<close>

theorem load_coercion_failure_catalogue_not_empty:
  "fst (load_movies example_runtime recursion_limit init bad_disk) = False
   \<and> movies (fst (snd (load_movies example_runtime recursion_limit init bad_disk)))
       = [[(''Title'', VStr ''The Dark Knight''), (''Genre'', VStr ''Action''),
           (''Rating'', VFloat 9), (''Year'', VInt 2008),
           (''Director'', VStr ''Christopher Nolan'')],
          [(''Title'', VStr ''Untitled''), (''Genre'', VStr ''Drama''),
           (''Rating'', VStr ''N/A''), (''Year'', VStr ''1994''),
           (''Director'', VStr ''Nobody'')],
          [(''Title'', VStr ''Whiplash''), (''Genre'', VStr ''Drama''),
           (''Rating'', VStr ''8.5''), (''Year'', VStr ''2014''),
           (''Director'', VStr ''Damien Chazelle'')]]"
  by code_simp

text \<open>
  C2, as amended. When the file does not exist, \<open>load_movies\<close> calls
  \<open>create_sample_csv\<close>. If that fails, the load fails without a retry. If it succeeds,
  \<open>load_movies\<close> is called once more, and when that call finds the file it is the only
  retry. A file that is missing again after a successful creation is no failure: it
  is created again and loaded again like the first time. The number of loads that
  find the file missing is bounded by the depth the interpreter allows, not by one.
\<close>

theorem load_missing_file_retries:
  assumes "open_read rt w = (FileNotFound, w1)"
  shows "(write_rows rt sample_movies w1 = (False, w2) \<longrightarrow>
            load_movies rt (Suc (Suc depth)) s w
              = (False, s\<lparr>printed := printed s @ [NotFoundCreating, CreateError]\<rparr>, w2))
       \<and> (write_rows rt sample_movies w1 = (True, w2)
            \<and> fst (open_read rt w2) \<noteq> FileNotFound \<longrightarrow>
            (\<exists>ok s' msg.
               load_movies rt (Suc (Suc depth)) s w = (ok, s', snd (open_read rt w2))
               \<and> printed s' = printed s @ [NotFoundCreating, SampleCreated, msg]
               \<and> msg \<noteq> NotFoundCreating))
       \<and> (write_rows rt sample_movies w1 = (True, w2)
            \<and> open_read rt w2 = (FileNotFound, w3)
            \<and> write_rows rt sample_movies w3 = (True, w4)
            \<and> fst (open_read rt w4) \<noteq> FileNotFound \<longrightarrow>
            (\<exists>ok s' msg.
               load_movies rt (Suc (Suc (Suc depth))) s w = (ok, s', snd (open_read rt w4))
               \<and> printed s' = printed s @ [NotFoundCreating, SampleCreated,
                                            NotFoundCreating, SampleCreated, msg]
               \<and> msg \<noteq> NotFoundCreating))
       \<and> count_list (printed (fst (snd (load_movies rt depth s w)))) NotFoundCreating
            \<le> count_list (printed s) NotFoundCreating + depth"
proof (intro conjI impI)
  assume "write_rows rt sample_movies w1 = (False, w2)"
  then show "load_movies rt (Suc (Suc depth)) s w
              = (False, s\<lparr>printed := printed s @ [NotFoundCreating, CreateError]\<rparr>, w2)"
    using load_no_retry [OF assms] by simp
next
  assume a: "write_rows rt sample_movies w1 = (True, w2)
               \<and> fst (open_read rt w2) \<noteq> FileNotFound"
  let ?s2 = "s\<lparr>printed := printed s @ [NotFoundCreating, SampleCreated]\<rparr>"
  from a have retry: "load_movies rt (Suc (Suc depth)) s w = load_movies rt (Suc depth) ?s2 w2"
    using load_retry [OF assms] by simp
  from a obtain ok s' msg where
    "load_movies rt (Suc depth) ?s2 w2 = (ok, s', snd (open_read rt w2))"
    "printed s' = printed ?s2 @ [msg]" "msg \<noteq> NotFoundCreating"
    using load_present [of rt w2 depth ?s2] by blast
  then show "\<exists>ok s' msg.
               load_movies rt (Suc (Suc depth)) s w = (ok, s', snd (open_read rt w2))
               \<and> printed s' = printed s @ [NotFoundCreating, SampleCreated, msg]
               \<and> msg \<noteq> NotFoundCreating"
    unfolding retry by (intro exI [of _ ok] exI [of _ s'] exI [of _ msg]) simp
next
  assume a: "write_rows rt sample_movies w1 = (True, w2)
            \<and> open_read rt w2 = (FileNotFound, w3)
            \<and> write_rows rt sample_movies w3 = (True, w4)
            \<and> fst (open_read rt w4) \<noteq> FileNotFound"
  let ?s2 = "s\<lparr>printed := printed s @ [NotFoundCreating, SampleCreated]\<rparr>"
  let ?s4 = "?s2\<lparr>printed := printed ?s2 @ [NotFoundCreating, SampleCreated]\<rparr>"
  from a have first: "load_movies rt (Suc (Suc (Suc depth))) s w
      = load_movies rt (Suc (Suc depth)) ?s2 w2"
    using load_retry [OF assms, of w2 "Suc depth" s] by simp
  from a have second: "load_movies rt (Suc (Suc depth)) ?s2 w2
      = load_movies rt (Suc depth) ?s4 w4"
    using load_retry [of rt w2 w3 w4 depth ?s2] by simp
  from a obtain ok s' msg where
    "load_movies rt (Suc depth) ?s4 w4 = (ok, s', snd (open_read rt w4))"
    "printed s' = printed ?s4 @ [msg]" "msg \<noteq> NotFoundCreating"
    using load_present [of rt w4 depth ?s4] by blast
  then show "\<exists>ok s' msg.
               load_movies rt (Suc (Suc (Suc depth))) s w = (ok, s', snd (open_read rt w4))
               \<and> printed s' = printed s @ [NotFoundCreating, SampleCreated,
                                            NotFoundCreating, SampleCreated, msg]
               \<and> msg \<noteq> NotFoundCreating"
    unfolding first second by (intro exI [of _ ok] exI [of _ s'] exI [of _ msg]) simp
next
  show "count_list (printed (fst (snd (load_movies rt depth s w)))) NotFoundCreating
            \<le> count_list (printed s) NotFoundCreating + depth"
    by (rule load_attempts_bounded)
qed

text \<open>
  The theorem where the file is missing and cannot be written, where it is missing
  and can be written, where it is removed once after it has been written, and where
  it is removed five times with three levels of depth.
\<close>

theorem load_missing_file_retries_witness:
  "open_read example_runtime read_only_disk = (FileNotFound, read_only_disk)
   \<and> write_rows example_runtime sample_movies read_only_disk = (False, read_only_disk)
   \<and> load_movies example_runtime (Suc (Suc 998)) init read_only_disk
       = (False, init\<lparr>printed := printed init @ [NotFoundCreating, CreateError]\<rparr>,
          read_only_disk)
   \<and> open_read example_runtime no_file = (FileNotFound, no_file)
   \<and> write_rows example_runtime sample_movies no_file = (True, written_disk)
   \<and> fst (open_read example_runtime written_disk) \<noteq> FileNotFound
   \<and> (\<exists>ok s' msg.
         load_movies example_runtime (Suc (Suc 998)) init no_file
           = (ok, s', snd (open_read example_runtime written_disk))
       \<and> printed s' = printed init @ [NotFoundCreating, SampleCreated, msg]
       \<and> msg \<noteq> NotFoundCreating)
   \<and> open_read example_runtime vanishing_disk = (FileNotFound, vanishing_disk)
   \<and> write_rows example_runtime sample_movies vanishing_disk = (True, no_file)
   \<and> (\<exists>ok s' msg.
         load_movies example_runtime (Suc (Suc (Suc 997))) init vanishing_disk
           = (ok, s', snd (open_read example_runtime written_disk))
       \<and> printed s' = printed init @ [NotFoundCreating, SampleCreated,
                                         NotFoundCreating, SampleCreated, msg]
       \<and> msg \<noteq> NotFoundCreating)
   \<and> count_list (printed (fst (snd (load_movies example_runtime 3 init restless_disk))))
        NotFoundCreating \<le> count_list (printed init) NotFoundCreating + 3"
proof -
  have r1: "open_read example_runtime no_file = (FileNotFound, no_file)"
    by (simp add: example_runtime_def no_file_def)
  have w1: "write_rows example_runtime sample_movies no_file = (True, written_disk)"
    by (simp add: example_runtime_def no_file_def written_disk_def)
  have r2: "fst (open_read example_runtime written_disk) \<noteq> FileNotFound"
    by (simp add: example_runtime_def written_disk_def)
  have r3: "open_read example_runtime read_only_disk = (FileNotFound, read_only_disk)"
    by (simp add: example_runtime_def read_only_disk_def)
  have w3: "write_rows example_runtime sample_movies read_only_disk = (False, read_only_disk)"
    by (simp add: example_runtime_def read_only_disk_def)
  have r4: "open_read example_runtime vanishing_disk = (FileNotFound, vanishing_disk)"
    by (simp add: example_runtime_def vanishing_disk_def)
  have w4: "write_rows example_runtime sample_movies vanishing_disk = (True, no_file)"
    by (simp add: example_runtime_def vanishing_disk_def no_file_def)
  note t1 = load_missing_file_retries
    [OF r3, where ?w2.0 = read_only_disk and depth = 998 and s = init]
  note t2 = load_missing_file_retries
    [OF r1, where ?w2.0 = written_disk and depth = 998 and s = init]
  note t3 = load_missing_file_retries
    [OF r4, where ?w2.0 = no_file and ?w3.0 = no_file and ?w4.0 = written_disk
       and depth = 997 and s = init]
  have c1: "load_movies example_runtime (Suc (Suc 998)) init read_only_disk
       = (False, init\<lparr>printed := printed init @ [NotFoundCreating, CreateError]\<rparr>,
          read_only_disk)"
    using t1 w3 by blast
  have c2: "\<exists>ok s' msg.
         load_movies example_runtime (Suc (Suc 998)) init no_file
           = (ok, s', snd (open_read example_runtime written_disk))
       \<and> printed s' = printed init @ [NotFoundCreating, SampleCreated, msg]
       \<and> msg \<noteq> NotFoundCreating"
    using t2 w1 r2 by blast
  have c3: "\<exists>ok s' msg.
         load_movies example_runtime (Suc (Suc (Suc 997))) init vanishing_disk
           = (ok, s', snd (open_read example_runtime written_disk))
       \<and> printed s' = printed init @ [NotFoundCreating, SampleCreated,
                                         NotFoundCreating, SampleCreated, msg]
       \<and> msg \<noteq> NotFoundCreating"
    using t3 w4 r1 w1 r2 by blast
  have r5: "open_read example_runtime restless_disk = (FileNotFound, restless_disk)"
    by (simp add: example_runtime_def restless_disk_def)
  have c4: "count_list (printed (fst (snd (load_movies example_runtime 3 init restless_disk))))
        NotFoundCreating \<le> count_list (printed init) NotFoundCreating + 3"
    using load_missing_file_retries [OF r5, where depth = 3 and s = init] by blast
  show ?thesis
    by (intro conjI r3 w3 c1 r1 w1 r2 c2 r4 w4 c3 c4)
qed

text \<open>
  C2 as stated fails: where the file is removed once more after the first successful
  creation, the second missing file is not a failure. \<open>load_movies\<close> creates the file a
  second time, loads a third time and returns \<open>True\<close>.
\<close>

theorem load_second_missing_file_retried:
  "fst (load_movies example_runtime recursion_limit init vanishing_disk) = True
   \<and> printed (fst (snd (load_movies example_runtime recursion_limit init vanishing_disk)))
       = [NotFoundCreating, SampleCreated, NotFoundCreating, SampleCreated, Loaded 25]"
  by code_simp

text \<open>
  C3, as amended. \<open>recommend_movies\<close> keeps exactly the entries that satisfy every
  option that is present with a truthy value (a non-empty genre, a bound other than
  0), sorts them by descending rating and returns the first five. An option that is
  absent, or present with the value 0 or the empty string, imposes no constraint.
\<close>

theorem recommend_applies_truthy_options:
  "recommend_movies p ms =
     slice_to 5 (sorted_by_rating_desc (filter (\<lambda>m.
         (\<forall>g. pref_genre p = Some g \<and> g \<noteq> [] \<longrightarrow> lower (Genre m) = lower g)
       \<and> (\<forall>r. pref_min_rating p = Some r \<and> r \<noteq> 0 \<longrightarrow> r \<le> Rating m)
       \<and> (\<forall>y. pref_year_from p = Some y \<and> y \<noteq> 0 \<longrightarrow> y \<le> Year m)
       \<and> (\<forall>y. pref_year_to p = Some y \<and> y \<noteq> 0 \<longrightarrow> Year m \<le> y)) ms))"
  unfolding recommend_movies_def Let_def opt_filter filter_filter
  by (rule arg_cong [where f = "\<lambda>xs. slice_to 5 (sorted_by_rating_desc xs)"], rule filter_cong)
     auto

text \<open>
  The theorem at preferences with four truthy options: of the two dramas at 8.5 or
  above, one is from the years 2000 to 2010.
\<close>

theorem recommend_applies_truthy_options_witness:
  "recommend_movies example_preferences example_catalogue = [untitled]"
proof -
  have "slice_to 5 (sorted_by_rating_desc (filter (\<lambda>m.
         (\<forall>g. pref_genre example_preferences = Some g \<and> g \<noteq> [] \<longrightarrow> lower (Genre m) = lower g)
       \<and> (\<forall>r. pref_min_rating example_preferences = Some r \<and> r \<noteq> 0 \<longrightarrow> r \<le> Rating m)
       \<and> (\<forall>y. pref_year_from example_preferences = Some y \<and> y \<noteq> 0 \<longrightarrow> y \<le> Year m)
       \<and> (\<forall>y. pref_year_to example_preferences = Some y \<and> y \<noteq> 0 \<longrightarrow> Year m \<le> y))
       example_catalogue)) = [untitled]"
    by (simp add: example_preferences_def example_catalogue_def lower_examples
        slice_to_def sorted_by_rating_desc_def
        dark_knight_def whiplash_def gladiator_def untitled_def)
  then show ?thesis
    using recommend_applies_truthy_options [of example_preferences example_catalogue]
    by simp
qed

text \<open>
  C3 as stated fails: with \<open>min_rating\<close> present and 0 an entry rated below 0 is
  returned, and with \<open>year_to\<close> present and 0 an entry of the year 2008 is returned.
\<close>

theorem recommend_zero_option_ignored:
  "recommend_movies
     \<lparr>pref_genre = None, pref_min_rating = Some 0, pref_year_from = None, pref_year_to = None\<rparr>
     [flop] = [flop]
   \<and> \<not> 0 \<le> Rating flop
   \<and> recommend_movies
     \<lparr>pref_genre = None, pref_min_rating = None, pref_year_from = None, pref_year_to = Some 0\<rparr>
     [dark_knight] = [dark_knight]
   \<and> \<not> Year dark_knight \<le> 0"
  by (simp add: recommend_movies_def slice_to_def sorted_by_rating_desc_def flop_def
      dark_knight_def)

text \<open>
  C4. The scope of \<open>get_top_movies n genre\<close> is the whole catalogue when there is no
  genre (or the empty one), and else the entries whose genre equals the given one up
  to letter case, in catalogue order. For \<open>n \<ge> 0\<close> the result has \<open>n\<close> entries of the
  scope, or all of them when there are fewer, never an error. They are in descending
  order of rating; the entries of any one rating appear in their catalogue order, the
  earliest first; and no entry of the scope left out has a higher rating than one
  returned.
\<close>

theorem top_movies_sorted_stable:
  fixes n :: int and genre :: "string option" and ms :: "movie list"
  defines "scope \<equiv>
     (case genre of
        None \<Rightarrow> ms
      | Some g \<Rightarrow> if g = [] then ms else filter (\<lambda>m. lower (Genre m) = lower g) ms)"
  assumes "0 \<le> n"
  shows "length (get_top_movies n genre ms) = min (nat n) (length scope)
    \<and> sorted_wrt (\<lambda>a b. Rating b \<le> Rating a) (get_top_movies n genre ms)
    \<and> (\<forall>k. prefix (filter (\<lambda>m. Rating m = k) (get_top_movies n genre ms))
                    (filter (\<lambda>m. Rating m = k) scope))
    \<and> mset (get_top_movies n genre ms) \<subseteq># mset scope
    \<and> (\<forall>x\<in>set (get_top_movies n genre ms).
          \<forall>y\<in>#(mset scope - mset (get_top_movies n genre ms)). Rating y \<le> Rating x)"
proof -
  let ?S = "sorted_by_rating_desc scope"
  have scope: "movies_to_sort genre ms = scope"
    by (simp add: scope_def movies_to_sort_def filter_by_genre_def split: option.splits)
  have top: "get_top_movies n genre ms = take (nat n) ?S"
    using assms(2) by (simp add: get_top_movies_def slice_to_nonneg scope)
  have len: "length (take (nat n) ?S) = min (nat n) (length scope)"
    by (simp add: length_sorted_by_rating_desc min.commute)
  have srt: "sorted_wrt (\<lambda>a b. Rating b \<le> Rating a) (take (nat n) ?S)"
    using sorted_by_rating_desc_sorted sorted_wrt_take by blast
  have stab: "prefix (filter (\<lambda>m. Rating m = k) (take (nat n) ?S))
                     (filter (\<lambda>m. Rating m = k) scope)" for k
    using filter_mono_prefix [OF take_is_prefix, of "\<lambda>m. Rating m = k" "nat n" ?S]
    by (simp add: sorted_by_rating_desc_stable)
  have split: "mset scope = mset (take (nat n) ?S) + mset (drop (nat n) ?S)"
    by (metis append_take_drop_id mset_append mset_sorted_by_rating_desc)
  have sub: "mset (take (nat n) ?S) \<subseteq># mset scope"
    unfolding split by simp
  have rest: "mset scope - mset (take (nat n) ?S) = mset (drop (nat n) ?S)"
    unfolding split by simp
  have "sorted_wrt (\<lambda>a b. Rating b \<le> Rating a) (take (nat n) ?S @ drop (nat n) ?S)"
    using sorted_by_rating_desc_sorted by simp
  then have cross:
    "\<forall>x\<in>set (take (nat n) ?S). \<forall>y\<in>set (drop (nat n) ?S). Rating y \<le> Rating x"
    unfolding sorted_wrt_append by blast
  show ?thesis
    unfolding top rest using len srt stab sub cross by simp
qed

text \<open>
  The theorem at the example catalogue: with \<open>n = 2\<close> and no genre, of the two entries
  rated 9 the one that comes first in the catalogue comes first in the result; with
  \<open>n = 5\<close> and the genre \<open>DRAMA\<close> the result is the two dramas, the higher rated first.
\<close>

theorem top_movies_sorted_stable_witness:
  "(0::int) \<le> 2
   \<and> get_top_movies 2 None example_catalogue = [dark_knight, untitled]
   \<and> length [dark_knight, untitled] = min (nat 2) (length example_catalogue)
   \<and> sorted_wrt (\<lambda>a b. Rating b \<le> Rating a) [dark_knight, untitled]
   \<and> prefix (filter (\<lambda>m. Rating m = 9) [dark_knight, untitled])
            (filter (\<lambda>m. Rating m = 9) example_catalogue)
   \<and> (0::int) \<le> 5
   \<and> get_top_movies 5 (Some ''DRAMA'') example_catalogue = [untitled, whiplash]
   \<and> length [untitled, whiplash] = min (nat 5) (length [whiplash, untitled])
   \<and> sorted_wrt (\<lambda>a b. Rating b \<le> Rating a) [untitled, whiplash]
   \<and> mset [untitled, whiplash] \<subseteq># mset [whiplash, untitled]"
proof -
  have h2: "(0::int) \<le> 2" and h5: "(0::int) \<le> 5" by simp_all
  note t2 = top_movies_sorted_stable [OF h2, of None example_catalogue]
  note t5 = top_movies_sorted_stable [OF h5, of "Some ''DRAMA''" example_catalogue]
  have a: "length [dark_knight, untitled] = min (nat 2) (length example_catalogue)
   \<and> sorted_wrt (\<lambda>a b. Rating b \<le> Rating a) [dark_knight, untitled]
   \<and> prefix (filter (\<lambda>m. Rating m = 9) [dark_knight, untitled])
            (filter (\<lambda>m. Rating m = 9) example_catalogue)"
    using t2 unfolding example_top2 by simp
  have b: "length [untitled, whiplash] = min (nat 5) (length [whiplash, untitled])
   \<and> sorted_wrt (\<lambda>a b. Rating b \<le> Rating a) [untitled, whiplash]
   \<and> mset [untitled, whiplash] \<subseteq># mset [whiplash, untitled]"
    using t5 unfolding example_top_drama by (simp add: example_scope_drama)
  show ?thesis using a b example_top2 example_top_drama by simp
qed

text \<open>
  C5. \<open>get_statistics\<close> on the empty catalogue raises \<open>StatisticsError\<close> and returns no
  value; on every other catalogue it returns the statistics.
\<close>

theorem statistics_fails_only_on_empty:
  "get_statistics fo [] = Inl StatisticsError
   \<and> (isl (get_statistics fo ms) \<longleftrightarrow> ms = [])"
proof -
  have e: "get_statistics fo [] = Inl StatisticsError"
    by (simp add: get_statistics_def mean_def)
  have "\<not> isl (get_statistics fo ms)" if ne: "ms \<noteq> []"
  proof -
    obtain x xs where ms: "ms = x # xs" using ne by (cases ms) auto
    obtain gs where "genre_loop fo ms (get_unique_genres ms) [] = Inr gs"
      using genre_loop_total by blast
    then show ?thesis
      by (simp add: get_statistics_def mean_def ms)
  qed
  then show ?thesis using e by auto
qed

text \<open>The theorem at the empty catalogue and at the example catalogue.\<close>

theorem statistics_fails_only_on_empty_witness:
  "get_statistics example_float_ops [] = Inl StatisticsError
   \<and> \<not> isl (get_statistics example_float_ops example_catalogue)"
proof -
  have "example_catalogue \<noteq> []" by (simp add: example_catalogue_def)
  then show ?thesis
    using statistics_fails_only_on_empty [of example_float_ops example_catalogue] by simp
qed



text \<open>
  C7. On every non-empty catalogue \<open>get_statistics\<close> returns, and \<open>highest_rated\<close> and
  \<open>lowest_rated\<close> are the first entries of the catalogue whose rating is the maximum and
  the minimum, \<open>oldest_movie\<close> and \<open>newest_movie\<close> the first entries whose year is the
  minimum and the maximum.
\<close>

theorem statistics_extremes_first:
  assumes "ms \<noteq> []"
  shows "\<exists>st. get_statistics fo ms = Inr st
       \<and> find (\<lambda>m. Rating m = Max (Rating ` set ms)) ms = Some (highest_rated st)
       \<and> find (\<lambda>m. Rating m = Min (Rating ` set ms)) ms = Some (lowest_rated st)
       \<and> find (\<lambda>m. Year m = Min (Year ` set ms)) ms = Some (oldest_movie st)
       \<and> find (\<lambda>m. Year m = Max (Year ` set ms)) ms = Some (newest_movie st)"
proof -
  obtain st where st: "get_statistics fo ms = Inr st"
    using get_statistics_total [OF assms] by blast
  show ?thesis
    using st get_statistics_Inr(1-4) [OF st]
    by (intro exI [of _ st]) (simp add: max_by_first min_by_first)
qed

text \<open>
  The theorem at the example catalogue, where the highest and the lowest rating and
  the earliest year each occur twice.
\<close>

theorem statistics_extremes_first_witness:
  "example_catalogue \<noteq> []
   \<and> get_statistics example_float_ops example_catalogue = Inr example_stats
   \<and> find (\<lambda>m. Rating m = Max (Rating ` set example_catalogue)) example_catalogue
       = Some dark_knight
   \<and> find (\<lambda>m. Rating m = Min (Rating ` set example_catalogue)) example_catalogue
       = Some whiplash
   \<and> find (\<lambda>m. Year m = Min (Year ` set example_catalogue)) example_catalogue
       = Some gladiator
   \<and> find (\<lambda>m. Year m = Max (Year ` set example_catalogue)) example_catalogue
       = Some whiplash"
proof -
  have ne: "example_catalogue \<noteq> []" by (simp add: example_catalogue_def)
  obtain st where st: "get_statistics example_float_ops example_catalogue = Inr st"
    and ex: "find (\<lambda>m. Rating m = Max (Rating ` set example_catalogue)) example_catalogue
               = Some (highest_rated st)"
      "find (\<lambda>m. Rating m = Min (Rating ` set example_catalogue)) example_catalogue
               = Some (lowest_rated st)"
      "find (\<lambda>m. Year m = Min (Year ` set example_catalogue)) example_catalogue
               = Some (oldest_movie st)"
      "find (\<lambda>m. Year m = Max (Year ` set example_catalogue)) example_catalogue
               = Some (newest_movie st)"
    using statistics_extremes_first [OF ne, of example_float_ops] by blast
  have "st = example_stats" using st example_statistics by simp
  then show ?thesis using ne ex example_statistics by (simp add: example_stats_def)
qed

text \<open>
  C8. \<open>get_unique_genres\<close> returns the genres of the catalogue as they are stored, each
  exactly once, in strictly ascending order.
\<close>

theorem unique_genres_sorted_distinct:
  "set (get_unique_genres ms) = Genre ` set ms
   \<and> distinct (get_unique_genres ms)
   \<and> sorted_wrt (<) (get_unique_genres ms)
   \<and> count_list (get_unique_genres ms) g = (if g \<in> Genre ` set ms then 1 else 0)"
proof -
  have d: "distinct (get_unique_genres ms)" by (simp add: get_unique_genres_def)
  have s: "set (get_unique_genres ms) = Genre ` set ms" by (simp add: get_unique_genres_def)
  have c: "count_list (get_unique_genres ms) g = (if g \<in> Genre ` set ms then 1 else 0)"
    using count_list_distinct [OF d, of g] s by simp
  show ?thesis using d s c by (simp add: get_unique_genres_def)
qed

text \<open>The theorem at the example catalogue.\<close>

theorem unique_genres_sorted_distinct_witness:
  "set [''Action'', ''Drama'', ''drama''] = Genre ` set example_catalogue
   \<and> distinct [''Action'', ''Drama'', ''drama'']
   \<and> sorted_wrt (<) [''Action'', ''Drama'', ''drama'']
   \<and> count_list [''Action'', ''Drama'', ''drama''] ''Drama'' = 1"
proof -
  have "''Drama'' \<in> Genre ` set example_catalogue"
    by (simp add: example_catalogue_def whiplash_def)
  then show ?thesis
    using unique_genres_sorted_distinct [of example_catalogue "''Drama''"]
    unfolding example_genres by simp
qed

text \<open>
  C9. For every catalogue and every \<open>n\<close>, \<open>get_top_movies\<close> with the empty string as genre
  gives what it gives with no genre: the ranking of the whole catalogue, not of the
  entries whose genre is the empty string.
\<close>

theorem top_movies_empty_genre:
  "get_top_movies n (Some []) ms = get_top_movies n None ms
   \<and> get_top_movies n None ms = slice_to n (sorted_by_rating_desc ms)"
  by (simp add: get_top_movies_def movies_to_sort_def)

text \<open>The theorem at the example catalogue, none of whose genres is empty.\<close>

theorem top_movies_empty_genre_witness:
  "get_top_movies 2 (Some []) example_catalogue = [dark_knight, untitled]"
proof -
  have "slice_to 2 (sorted_by_rating_desc example_catalogue) = [dark_knight, untitled]"
    by (simp add: slice_to_def sorted_by_rating_desc_def example_catalogue_def
        dark_knight_def whiplash_def gladiator_def untitled_def)
  then show ?thesis
    using top_movies_empty_genre [of 2 example_catalogue] by simp
qed

text \<open>
  C10. On every non-empty catalogue \<open>get_statistics\<close> returns, and the keys of
  \<open>genre_statistics\<close> are the distinct genres as stored. The entry of a key counts and
  averages all entries of the catalogue whose genre equals the key up to letter case,
  so two keys that differ in case only have the same entry. The counts add up to at
  least \<open>total_movies\<close>, and to more when two such keys exist.
\<close>

theorem genre_statistics_case_insensitive:
  assumes "ms \<noteq> []"
  shows "\<exists>st. get_statistics fo ms = Inr st
    \<and> map fst (genre_statistics st) = get_unique_genres ms
    \<and> (\<forall>g\<in>set (get_unique_genres ms).
          map_of (genre_statistics st) g = Some (genre_entry fo ms g))
    \<and> (\<forall>g\<in>set (get_unique_genres ms). \<forall>h\<in>set (get_unique_genres ms).
          lower g = lower h \<longrightarrow> map_of (genre_statistics st) g = map_of (genre_statistics st) h)
    \<and> total_movies st \<le> (\<Sum>e\<leftarrow>genre_statistics st. genre_count (snd e))
    \<and> ((\<exists>g\<in>set (get_unique_genres ms). \<exists>h\<in>set (get_unique_genres ms).
            g \<noteq> h \<and> lower g = lower h)
          \<longrightarrow> total_movies st < (\<Sum>e\<leftarrow>genre_statistics st. genre_count (snd e)))"
proof -
  obtain st where st: "get_statistics fo ms = Inr st"
    using get_statistics_total [OF assms] by blast
  let ?G = "get_unique_genres ms"
  have loop: "genre_loop fo ms ?G [] = Inr (genre_statistics st)"
    and total: "total_movies st = length ms"
    using get_statistics_Inr(5,6) [OF st] by simp_all
  have gs: "genre_statistics st = map (\<lambda>g. (g, genre_entry fo ms g)) ?G"
    using genre_statistics_eq [OF loop] .
  have keys: "map fst (genre_statistics st) = ?G"
    unfolding gs by (simp add: comp_def)
  have look: "map_of (genre_statistics st) g = Some (genre_entry fo ms g)" if "g \<in> set ?G" for g
    unfolding gs using that by (simp add: map_of_map_restrict)
  have same: "genre_entry fo ms g = genre_entry fo ms h" if "lower g = lower h" for g h
    using that by (simp add: genre_entry_def)
  have counts: "(\<Sum>e\<leftarrow>genre_statistics st. genre_count (snd e))
      = (\<Sum>m\<leftarrow>ms. length (filter (\<lambda>g. lower (Genre m) = lower g) ?G))"
  proof -
    have "(\<Sum>e\<leftarrow>genre_statistics st. genre_count (snd e))
        = (\<Sum>g\<leftarrow>?G. length (filter (\<lambda>m. lower (Genre m) = lower g) ms))"
      unfolding gs by (simp add: comp_def genre_entry_def Let_def)
    also have "\<dots> = (\<Sum>m\<leftarrow>ms. length (filter (\<lambda>g. lower (Genre m) = lower g) ?G))"
      by (rule count_swap)
    finally show ?thesis .
  qed
  have ge: "total_movies st \<le> (\<Sum>e\<leftarrow>genre_statistics st. genre_count (snd e))"
    unfolding counts total by (intro sum_list_ge_length ballI keys_matching_ge1)
  have gt: "total_movies st < (\<Sum>e\<leftarrow>genre_statistics st. genre_count (snd e))"
    if gh: "g \<in> set ?G" "h \<in> set ?G" "g \<noteq> h" "lower g = lower h" for g h
  proof -
    obtain m where m: "m \<in> set ms" "Genre m = g"
      using gh(1) by (auto simp: get_unique_genres_def)
    have "2 \<le> length (filter (\<lambda>g. lower (Genre m) = lower g) ?G)"
      using gh m by (intro keys_matching_ge2 [where h = h]) auto
    moreover have "\<forall>x\<in>set ms. 1 \<le> length (filter (\<lambda>g. lower (Genre x) = lower g) ?G)"
      by (intro ballI keys_matching_ge1)
    ultimately show ?thesis
      unfolding counts total using m(1)
      by (intro sum_list_gt_length [where x = m])
  qed
  have c2: "\<forall>g\<in>set ?G. map_of (genre_statistics st) g = Some (genre_entry fo ms g)"
    using look by blast
  have c3: "\<forall>g\<in>set ?G. \<forall>h\<in>set ?G.
          lower g = lower h \<longrightarrow> map_of (genre_statistics st) g = map_of (genre_statistics st) h"
  proof (intro ballI impI)
    fix g h assume "g \<in> set ?G" "h \<in> set ?G" "lower g = lower h"
    then show "map_of (genre_statistics st) g = map_of (genre_statistics st) h"
      using look [of g] look [of h] same [of g h] by (simp only:)
  qed
  have c5: "(\<exists>g\<in>set ?G. \<exists>h\<in>set ?G. g \<noteq> h \<and> lower g = lower h)
          \<longrightarrow> total_movies st < (\<Sum>e\<leftarrow>genre_statistics st. genre_count (snd e))"
    using gt by blast
  show ?thesis
    by (intro exI [of _ st] conjI st keys c2 c3 ge c5)
qed

text \<open>
  The theorem at the example catalogue: the keys \<open>Drama\<close> and \<open>drama\<close> have the same
  entry, and the counts add up to 6 for 4 entries.
\<close>

theorem genre_statistics_case_insensitive_witness:
  "example_catalogue \<noteq> []
   \<and> get_statistics example_float_ops example_catalogue = Inr example_stats
   \<and> map fst (genre_statistics example_stats) = [''Action'', ''Drama'', ''drama'']
   \<and> map_of (genre_statistics example_stats) ''drama''
       = Some (genre_entry example_float_ops example_catalogue ''drama'')
   \<and> map_of (genre_statistics example_stats) ''Drama''
       = map_of (genre_statistics example_stats) ''drama''
   \<and> total_movies example_stats < (\<Sum>e\<leftarrow>genre_statistics example_stats. genre_count (snd e))"
proof -
  have ne: "example_catalogue \<noteq> []" by (simp add: example_catalogue_def)
  obtain st where st: "get_statistics example_float_ops example_catalogue = Inr st"
    and t: "map fst (genre_statistics st) = get_unique_genres example_catalogue"
      "\<forall>g\<in>set (get_unique_genres example_catalogue).
          map_of (genre_statistics st) g = Some (genre_entry example_float_ops example_catalogue g)"
      "\<forall>g\<in>set (get_unique_genres example_catalogue).
       \<forall>h\<in>set (get_unique_genres example_catalogue).
          lower g = lower h \<longrightarrow> map_of (genre_statistics st) g = map_of (genre_statistics st) h"
      "(\<exists>g\<in>set (get_unique_genres example_catalogue).
        \<exists>h\<in>set (get_unique_genres example_catalogue). g \<noteq> h \<and> lower g = lower h)
          \<longrightarrow> total_movies st < (\<Sum>e\<leftarrow>genre_statistics st. genre_count (snd e))"
    using genre_statistics_case_insensitive [OF ne, of example_float_ops] by blast
  have eq: "st = example_stats" using st example_statistics by simp
  have keys: "''Drama'' \<in> set (get_unique_genres example_catalogue)"
    "''drama'' \<in> set (get_unique_genres example_catalogue)"
    unfolding example_genres by simp_all
  have variants: "''Drama'' \<noteq> ''drama''" "lower ''Drama'' = lower ''drama''"
    by (simp_all add: lower_examples)
  have k1: "map fst (genre_statistics example_stats) = [''Action'', ''Drama'', ''drama'']"
    using t(1) unfolding example_genres eq .
  have k2: "map_of (genre_statistics example_stats) ''drama''
       = Some (genre_entry example_float_ops example_catalogue ''drama'')"
    using t(2) [unfolded eq, rule_format, OF keys(2)] .
  have k3: "map_of (genre_statistics example_stats) ''Drama''
       = map_of (genre_statistics example_stats) ''drama''"
    using t(3) [unfolded eq, rule_format, OF keys(1) keys(2) variants(2)] .
  have ex: "\<exists>g\<in>set (get_unique_genres example_catalogue).
        \<exists>h\<in>set (get_unique_genres example_catalogue). g \<noteq> h \<and> lower g = lower h"
    using keys variants by (intro bexI [of _ "''Drama''"] bexI [of _ "''drama''"] conjI)
  have k4: "total_movies example_stats
      < (\<Sum>e\<leftarrow>genre_statistics example_stats. genre_count (snd e))"
    using t(4) [unfolded eq] ex by (rule mp)
  show ?thesis
    by (intro conjI ne example_statistics k1 k2 k3 k4)
qed

end
